theory Spec2Isabelle
  imports Main "HOL-Library.Sublist"
begin

section \<open>Go values\<close>

text \<open>
  A Go string is a sequence of bytes, here a \<open>char list\<close>; the Chinese literals of the
  source are written as their UTF-8 bytes. A Go \<open>error\<close> is represented by the text
  its \<open>Error()\<close> method returns, \<open>nil\<close> by \<open>None\<close>. A run-time panic is a value of
  its own, so a function of the source that can panic returns \<open>panic + result\<close>.
\<close>

type_synonym go_error = string

datatype panic =
    IndexOutOfRange nat nat  \<comment> \<open>index, length of the slice\<close>
  | NilDereference

text \<open>
  \<open>strings.TrimSpace\<close> removes the leading and the trailing white space as Unicode
  defines it. On the bytes of a string these are the UTF-8 encodings of the code
  points U+0009 to U+000D, U+0020, U+0085, U+00A0, U+1680, U+2000 to U+200A, U+2028,
  U+2029, U+202F, U+205F and U+3000.
\<close>

definition unicode_spaces :: "string list" where
  "unicode_spaces =
     [[CHR 0x09], [CHR 0x0A], [CHR 0x0B], [CHR 0x0C], [CHR 0x0D], [CHR 0x20],
      [CHR 0xC2, CHR 0x85], [CHR 0xC2, CHR 0xA0], [CHR 0xE1, CHR 0x9A, CHR 0x80],
      [CHR 0xE2, CHR 0x80, CHR 0x80], [CHR 0xE2, CHR 0x80, CHR 0x81],
      [CHR 0xE2, CHR 0x80, CHR 0x82], [CHR 0xE2, CHR 0x80, CHR 0x83],
      [CHR 0xE2, CHR 0x80, CHR 0x84], [CHR 0xE2, CHR 0x80, CHR 0x85],
      [CHR 0xE2, CHR 0x80, CHR 0x86], [CHR 0xE2, CHR 0x80, CHR 0x87],
      [CHR 0xE2, CHR 0x80, CHR 0x88], [CHR 0xE2, CHR 0x80, CHR 0x89],
      [CHR 0xE2, CHR 0x80, CHR 0x8A], [CHR 0xE2, CHR 0x80, CHR 0xA8],
      [CHR 0xE2, CHR 0x80, CHR 0xA9], [CHR 0xE2, CHR 0x80, CHR 0xAF],
      [CHR 0xE2, CHR 0x81, CHR 0x9F], [CHR 0xE3, CHR 0x80, CHR 0x80]]"

function trim_left :: "string \<Rightarrow> string" where
  "trim_left s =
     (case List.find (\<lambda>p. prefix p s) unicode_spaces of
        None \<Rightarrow> s
      | Some p \<Rightarrow> trim_left (drop (length p) s))"
  by pat_completeness auto
termination
proof (relation "measure length")
  show "wf (measure length)" by simp
next
  fix s p
  assume "List.find (\<lambda>p. prefix p s) unicode_spaces = Some p"
  then have "p \<in> set unicode_spaces" and "prefix p s"
    by (auto simp: find_Some_iff)
  then have "0 < length p" and "length p \<le> length s"
    by (auto simp: unicode_spaces_def prefix_length_le)
  then show "(drop (length p) s, s) \<in> measure length" by (cases p) auto
qed

declare trim_left.simps [simp del]

function trim_right :: "string \<Rightarrow> string" where
  "trim_right s =
     (case List.find (\<lambda>p. suffix p s) unicode_spaces of
        None \<Rightarrow> s
      | Some p \<Rightarrow> trim_right (take (length s - length p) s))"
  by pat_completeness auto
termination
proof (relation "measure length")
  show "wf (measure length)" by simp
next
  fix s p
  assume "List.find (\<lambda>p. suffix p s) unicode_spaces = Some p"
  then have "p \<in> set unicode_spaces" and "suffix p s"
    by (auto simp: find_Some_iff)
  then have "0 < length p" and "length p \<le> length s"
    by (auto simp: unicode_spaces_def suffix_length_le)
  then show "(take (length s - length p) s, s) \<in> measure length" by (cases p) auto
qed

declare trim_right.simps [simp del]

definition TrimSpace :: "string \<Rightarrow> string" where
  "TrimSpace s = trim_right (trim_left s)"


text \<open>\<open>strings.Contains\<close>: some suffix of \<open>s\<close> starts with \<open>sub\<close>.\<close>

fun Contains :: "string \<Rightarrow> string \<Rightarrow> bool" where
  "Contains [] sub = (sub = [])"
| "Contains (c # cs) sub = (prefix sub (c # cs) \<or> Contains cs sub)"

text \<open>
  \<open>strconv.Atoi\<close>: an optional sign, then at least one decimal digit and nothing else;
  a value outside the 64-bit range is an error. \<open>None\<close> is the error.
\<close>

definition digit_of :: "char \<Rightarrow> nat option" where
  "digit_of c =
     (let n = (of_char c :: nat) in if 48 \<le> n \<and> n \<le> 57 then Some (n - 48) else None)"

fun digits_val :: "nat \<Rightarrow> string \<Rightarrow> nat option" where
  "digits_val acc [] = Some acc"
| "digits_val acc (c # cs) =
     (case digit_of c of None \<Rightarrow> None | Some d \<Rightarrow> digits_val (10 * acc + d) cs)"

definition Atoi :: "string \<Rightarrow> int option" where
  "Atoi s =
     (case s of
        [] \<Rightarrow> None
      | c # cs \<Rightarrow>
          (let neg = (c = CHR ''-'');
               ds = (if c = CHR ''-'' \<or> c = CHR ''+'' then cs else s)
           in if ds = [] then None
              else (case digits_val 0 ds of
                      None \<Rightarrow> None
                    | Some n \<Rightarrow>
                        (let v = (if neg then - int n else int n)
                         in if - (2 ^ 63) \<le> v \<and> v < 2 ^ 63 then Some v else None))))"

section \<open>The job record\<close>

type_synonym page_ref = nat

text \<open>
  \<open>VideoCreateTask\<close>; the field \<open>Page\<close> is a pointer, \<open>None\<close> when it is nil.
\<close>

record VideoCreateTask =
  Description :: string
  Location :: string
  Collection :: string
  Link :: string
  Activity :: string
  Schedule :: bool
  ScheduleTime :: string
  ShortTitle :: string
  Action :: string
  VideoPath :: string
  RowIndex :: int
  Page :: "page_ref option"
  ChannelName :: string
  Success :: bool
  Error :: string

text \<open>The zero value \<open>VideoCreateTask{}\<close>.\<close>

definition zero_task :: VideoCreateTask where
  "zero_task =
     \<lparr>Description = [], Location = [], Collection = [], Link = [], Activity = [],
      Schedule = False, ScheduleTime = [], ShortTitle = [], Action = [], VideoPath = [],
      RowIndex = 0, Page = None, ChannelName = [], Success = False, Error = []\<rparr>"

text \<open>\<open>VideoUploadOptions\<close>; its fields carry the prefix \<open>opt\<close>.\<close>

record VideoUploadOptions =
  optDescription :: string
  optLocation :: string
  optCollection :: string
  optLink :: string
  optActivity :: string
  optSchedule :: bool
  optScheduleTime :: string
  optShortTitle :: string
  optAction :: string

section \<open>Parsing a spreadsheet row\<close>

definition str_scheduled :: string where  \<comment> \<open>the literal for "scheduled"\<close>
  "str_scheduled = [CHR 0xE5, CHR 0xAE, CHR 0x9A, CHR 0xE6, CHR 0x97, CHR 0xB6]"

definition str_save_draft :: string where  \<comment> \<open>the literal for "save draft"\<close>
  "str_save_draft =
     [CHR 0xE4, CHR 0xBF, CHR 0x9D, CHR 0xE5, CHR 0xAD, CHR 0x98,
      CHR 0xE8, CHR 0x8D, CHR 0x89, CHR 0xE7, CHR 0xA8, CHR 0xBF]"

definition str_preview :: string where  \<comment> \<open>the literal for "phone preview"\<close>
  "str_preview =
     [CHR 0xE6, CHR 0x89, CHR 0x8B, CHR 0xE6, CHR 0x9C, CHR 0xBA,
      CHR 0xE9, CHR 0xA2, CHR 0x84, CHR 0xE8, CHR 0xA7, CHR 0x88]"

definition str_publish :: string where  \<comment> \<open>the literal for "publish"\<close>
  "str_publish = [CHR 0xE5, CHR 0x8F, CHR 0x91, CHR 0xE8, CHR 0xA1, CHR 0xA8]"

text \<open>The errors \<open>parseTaskFromRow\<close> returns, one constructor for each message.\<close>

datatype parse_error =
    ScheduleTimeEmpty
  | TimeFormatError
  | TimeOutOfWindow
  | DraftWithSchedule
  | UnsupportedAction string
  | MissingAction
  | VideoPathEmpty
  | VideoFileMissing string
  | MissingVideoPath

text \<open>
  What the function reads from outside: \<open>time.Parse\<close> with the layout of the source
  (seconds since the epoch, \<open>None\<close> for a parse error), \<open>time.Now\<close>, and whether
  \<open>checkFileExists\<close> finds the file.
\<close>

record parse_env =
  time_Parse :: "string \<Rightarrow> int option"
  time_Now :: int
  checkFileExists :: "string \<Rightarrow> bool"

definition thirty_days :: int where
  "thirty_days = 30 * 24 * 3600"

text \<open>Columns A to F: every access is behind its length check.\<close>

definition parse_columns_A_F :: "string list \<Rightarrow> VideoCreateTask" where
  "parse_columns_A_F row =
     (let task = zero_task;
          task = (if length row > 0 then task\<lparr>Description := TrimSpace (row ! 0)\<rparr> else task);
          task = (if length row > 1 then task\<lparr>Location := TrimSpace (row ! 1)\<rparr> else task);
          task = (if length row > 2 then task\<lparr>Collection := TrimSpace (row ! 2)\<rparr> else task);
          task = (if length row > 3 then task\<lparr>Link := TrimSpace (row ! 3)\<rparr> else task);
          task = (if length row > 4 then task\<lparr>Activity := TrimSpace (row ! 4)\<rparr> else task);
          task = (if length row > 5
                  then task\<lparr>Schedule := (TrimSpace (row ! 5) = str_scheduled)\<rparr> else task)
      in task)"

text \<open>Column J, the video path.\<close>

definition parse_column_J ::
  "parse_env \<Rightarrow> string list \<Rightarrow> VideoCreateTask \<Rightarrow> VideoCreateTask \<times> parse_error option" where
  "parse_column_J env row task =
     (if length row > 9 then
        (let videoPath = TrimSpace (row ! 9)
         in if videoPath = [] then (task, Some VideoPathEmpty)
            else if \<not> checkFileExists env videoPath then (task, Some (VideoFileMissing videoPath))
            else (task\<lparr>VideoPath := videoPath\<rparr>, None))
      else (task, Some MissingVideoPath))"

text \<open>
  Columns H and I. The caller has checked \<open>row[5]\<close> before, so \<open>5 < length row\<close> holds
  wherever \<open>row ! 5\<close> is read here.
\<close>

definition parse_columns_H_J ::
  "parse_env \<Rightarrow> string list \<Rightarrow> VideoCreateTask \<Rightarrow> VideoCreateTask \<times> parse_error option" where
  "parse_columns_H_J env row task0 =
     (let task = (if length row > 7 then task0\<lparr>ShortTitle := TrimSpace (row ! 7)\<rparr> else task0)
      in if length row > 8 then
           (let action = TrimSpace (row ! 8)
            in if row ! 5 = str_scheduled \<and> row ! 8 = str_save_draft
               then (task, Some DraftWithSchedule)
               else if action = str_save_draft
                 then parse_column_J env row (task\<lparr>Action := ''save_draft''\<rparr>)
               else if action = str_preview
                 then parse_column_J env row (task\<lparr>Action := ''preview''\<rparr>)
               else if action = str_publish
                 then parse_column_J env row (task\<lparr>Action := ''publish''\<rparr>)
               else (task, Some (UnsupportedAction action)))
         else (task, Some MissingAction))"

text \<open>Column G, the schedule time, read when the row has more than six cells.\<close>

definition parse_columns_G_J ::
  "parse_env \<Rightarrow> string list \<Rightarrow> VideoCreateTask \<Rightarrow> VideoCreateTask \<times> parse_error option" where
  "parse_columns_G_J env row task0 =
     (if length row > 6 then
        (let task = task0\<lparr>ScheduleTime := TrimSpace (row ! 6)\<rparr>
         in if row ! 5 = str_scheduled \<and> ScheduleTime task \<noteq> [] then
              (case time_Parse env (ScheduleTime task) of
                 None \<Rightarrow> (task, Some TimeFormatError)
               | Some targetTime \<Rightarrow>
                   if targetTime < time_Now env \<or> time_Now env + thirty_days < targetTime
                   then (task, Some TimeOutOfWindow)
                   else parse_columns_H_J env row task)
            else parse_columns_H_J env row task)
      else parse_columns_H_J env row task0)"

text \<open>
  \<open>parseTaskFromRow\<close>. After column F the source evaluates
  \<open>row[5] == scheduled && row[6] == ""\<close> with no length check: \<open>row[5]\<close> panics on a row
  of five cells or fewer, and \<open>row[6]\<close> (evaluated only when the left operand is true)
  panics on a row of six cells whose sixth cell is the literal.
\<close>

definition parseTaskFromRow ::
  "parse_env \<Rightarrow> string list \<Rightarrow> panic + (VideoCreateTask \<times> parse_error option)" where
  "parseTaskFromRow env row =
     (let task = parse_columns_A_F row
      in if \<not> 5 < length row then Inl (IndexOutOfRange 5 (length row))
         else if row ! 5 = str_scheduled \<and> \<not> 6 < length row
           then Inl (IndexOutOfRange 6 (length row))
         else if row ! 5 = str_scheduled \<and> row ! 6 = []
           then Inr (task, Some ScheduleTimeEmpty)
         else Inr (parse_columns_G_J env row task))"

section \<open>The dispatcher\<close>

text \<open>
  The browser is a state \<open>'w\<close> that the automation calls read and change; what they
  do to it is given from outside. \<open>NewPage\<close> and \<open>Goto\<close> are the calls of the
  automation library; \<open>waitUserLogin\<close>, \<open>waitForPageReady\<close>, \<open>isLoggedIn\<close>,
  \<open>getCurrentChannelName\<close>, \<open>uploadVideo\<close> and \<open>completeVideoUploadForm\<close> are the
  functions of the source that drive the page, taken by what they return.
\<close>

record 'w browser =
  NewPage :: "'w \<Rightarrow> (go_error + page_ref) \<times> 'w"
  Goto :: "page_ref \<Rightarrow> 'w \<Rightarrow> go_error option \<times> 'w"
  Reload :: "page_ref \<Rightarrow> 'w \<Rightarrow> 'w"
  waitUserLogin :: "page_ref \<Rightarrow> 'w \<Rightarrow> go_error option \<times> 'w"
  waitForPageReady :: "page_ref \<Rightarrow> 'w \<Rightarrow> go_error option \<times> 'w"
  isLoggedIn :: "page_ref \<Rightarrow> 'w \<Rightarrow> bool"
  getCurrentChannelName :: "page_ref \<Rightarrow> 'w \<Rightarrow> string"
  uploadVideo :: "page_ref \<Rightarrow> string \<Rightarrow> 'w \<Rightarrow> go_error option \<times> 'w"
  completeVideoUploadForm :: "page_ref \<Rightarrow> VideoUploadOptions \<Rightarrow> 'w \<Rightarrow> go_error option \<times> 'w"

text \<open>The prefixes of the error texts of \<open>GeneratePage\<close>, each ending in a colon and a space.\<close>

definition err_new_page :: string where  \<comment> \<open>"creating the page failed: "\<close>
  "err_new_page =
     [CHR 0xE5, CHR 0x88, CHR 0x9B, CHR 0xE5, CHR 0xBB, CHR 0xBA,
      CHR 0xE9, CHR 0xA1, CHR 0xB5, CHR 0xE9, CHR 0x9D, CHR 0xA2,
      CHR 0xE5, CHR 0xA4, CHR 0xB1, CHR 0xE8, CHR 0xB4, CHR 0xA5,
      CHR 0x3A, CHR 0x20]"

definition err_navigation :: string where  \<comment> \<open>"page creation failed: "\<close>
  "err_navigation =
     [CHR 0xE9, CHR 0xA1, CHR 0xB5, CHR 0xE9, CHR 0x9D, CHR 0xA2,
      CHR 0xE5, CHR 0x88, CHR 0x9B, CHR 0xE5, CHR 0xBB, CHR 0xBA,
      CHR 0xE5, CHR 0xA4, CHR 0xB1, CHR 0xE8, CHR 0xB4, CHR 0xA5,
      CHR 0x3A, CHR 0x20]"

definition err_login :: string where  \<comment> \<open>"login failed: "\<close>
  "err_login =
     [CHR 0xE7, CHR 0x99, CHR 0xBB, CHR 0xE5, CHR 0xBD, CHR 0x95,
      CHR 0xE5, CHR 0xA4, CHR 0xB1, CHR 0xE8, CHR 0xB4, CHR 0xA5,
      CHR 0x3A, CHR 0x20]"

definition err_page_load :: string where  \<comment> \<open>"loading the page failed: "\<close>
  "err_page_load =
     [CHR 0xE9, CHR 0xA1, CHR 0xB5, CHR 0xE9, CHR 0x9D, CHR 0xA2,
      CHR 0xE5, CHR 0x8A, CHR 0xA0, CHR 0xE8, CHR 0xBD, CHR 0xBD,
      CHR 0xE5, CHR 0xA4, CHR 0xB1, CHR 0xE8, CHR 0xB4, CHR 0xA5,
      CHR 0x3A, CHR 0x20]"

definition err_login_invalid :: string where  \<comment> \<open>"login information invalid: "\<close>
  "err_login_invalid =
     [CHR 0xE7, CHR 0x99, CHR 0xBB, CHR 0xE5, CHR 0xBD, CHR 0x95,
      CHR 0xE4, CHR 0xBF, CHR 0xA1, CHR 0xE6, CHR 0x81, CHR 0xAF,
      CHR 0xE5, CHR 0xA4, CHR 0xB1, CHR 0xE6, CHR 0x95, CHR 0x88,
      CHR 0x3A, CHR 0x20]"

text \<open>
  The navigation loop of \<open>GeneratePage\<close> with \<open>n\<close> attempts left: after a failed attempt
  the page is reloaded (after the last one too), and the error of the last attempt is
  the result.
\<close>

fun goto_attempts :: "'w browser \<Rightarrow> page_ref \<Rightarrow> nat \<Rightarrow> 'w \<Rightarrow> go_error option \<times> 'w" where
  "goto_attempts b page 0 w = (None, w)"
| "goto_attempts b page (Suc n) w =
     (case Goto b page w of
        (None, w1) \<Rightarrow> (None, w1)
      | (Some e, w1) \<Rightarrow>
          (let w2 = Reload b page w1
           in if n = 0 then (Some e, w2) else goto_attempts b page n w2))"

text \<open>
  \<open>GeneratePage\<close> returns the page pointer, the channel name and the error. The pointer
  is nil when the page cannot be created, when navigation fails three times and when
  the page does not become ready; it is the page when the login check fails. The
  text of that last error formats the error variable of the navigation loop, which is
  nil there.
\<close>

definition GeneratePage ::
  "'w browser \<Rightarrow> bool \<Rightarrow> 'w \<Rightarrow> (page_ref option \<times> string \<times> go_error option) \<times> 'w" where
  "GeneratePage b isLogin w =
     (case NewPage b w of
        (Inl e, w1) \<Rightarrow> ((None, [], Some (err_new_page @ e)), w1)
      | (Inr page, w1) \<Rightarrow>
          (case goto_attempts b page 3 w1 of
             (Some e, w2) \<Rightarrow> ((None, [], Some (err_navigation @ e)), w2)
           | (None, w2) \<Rightarrow>
               if isLogin then
                 (case waitUserLogin b page w2 of
                    (Some e, w3) \<Rightarrow> ((None, [], Some (err_login @ e)), w3)
                  | (None, w3) \<Rightarrow> ((Some page, [], None), w3))
               else
                 (case waitForPageReady b page w2 of
                    (Some e, w3) \<Rightarrow> ((None, [], Some (err_page_load @ e)), w3)
                  | (None, w3) \<Rightarrow>
                      if \<not> isLoggedIn b page w3
                      then ((Some page, [], Some (err_login_invalid @ ''<nil>'')), w3)
                      else ((Some page, getCurrentChannelName b page w3, None), w3))))"

definition createVideo ::
  "'w browser \<Rightarrow> page_ref \<Rightarrow> VideoCreateTask \<Rightarrow> 'w \<Rightarrow> VideoCreateTask \<times> 'w" where
  "createVideo b page videoCreateTask w =
     (let (err, w1) = uploadVideo b page (VideoPath videoCreateTask) w;
          (err, w2) =
            (if err = None then
               completeVideoUploadForm b page
                 \<lparr>optDescription = Description videoCreateTask,
                  optLocation = Location videoCreateTask,
                  optCollection = Collection videoCreateTask,
                  optLink = Link videoCreateTask,
                  optActivity = Activity videoCreateTask,
                  optSchedule = Schedule videoCreateTask,
                  optScheduleTime = ScheduleTime videoCreateTask,
                  optShortTitle = ShortTitle videoCreateTask,
                  optAction = Action videoCreateTask\<rparr> w1
             else (err, w1))
      in case err of
           Some e \<Rightarrow> (videoCreateTask\<lparr>Success := False, Error := e\<rparr>, w2)
         | None \<Rightarrow> (videoCreateTask\<lparr>Success := True\<rparr>, w2))"

text \<open>
  \<open>processTaskConcurrent\<close>, the size of the worker pool: the capacity of the semaphore.
\<close>

definition maxConcurrency :: "VideoCreateTask list \<Rightarrow> nat" where
  "maxConcurrency videoCreateTasks =
     (let m = 3;
          m = (if length videoCreateTasks > 50 \<and> length videoCreateTasks < 100 then 5 else m);
          m = (if length videoCreateTasks > 100 then 10 else m)
      in m)"

text \<open>
  The loop of \<open>processTaskSequential\<close> over the jobs: each slot is replaced by the
  outcome of \<open>createVideo\<close> on it, then the page is reloaded. (The lines written to the
  log file change no job and are left out.)
\<close>

fun sequential_loop ::
  "'w browser \<Rightarrow> page_ref \<Rightarrow> VideoCreateTask list \<Rightarrow> 'w \<Rightarrow> VideoCreateTask list \<times> 'w" where
  "sequential_loop b page [] w = ([], w)"
| "sequential_loop b page (t # ts) w =
     (let (t', w1) = createVideo b page t w;
          (ts', w2) = sequential_loop b page ts (Reload b page w1)
      in (t' # ts', w2))"

text \<open>
  \<open>processTaskSequential\<close>. When \<open>GeneratePage\<close> returns an error the source writes to
  \<open>videoCreateTasks[1]\<close>, the second slot, and returns: on a list of fewer than two jobs
  the index is out of range. Without an error the deferred \<open>(*page).Close()\<close>
  dereferences the page pointer.
\<close>

definition processTaskSequential ::
  "'w browser \<Rightarrow> VideoCreateTask list \<Rightarrow> 'w \<Rightarrow> panic + (VideoCreateTask list \<times> 'w)" where
  "processTaskSequential b videoCreateTasks w =
     (let ((page, channelName, pageError), w1) = GeneratePage b False w
      in case pageError of
           Some e \<Rightarrow>
             if 1 < length videoCreateTasks
             then Inr (videoCreateTasks
                         [1 := (videoCreateTasks ! 1)\<lparr>Success := False, Error := e\<rparr>], w1)
             else Inl (IndexOutOfRange 1 (length videoCreateTasks))
         | None \<Rightarrow>
             (case page of
                None \<Rightarrow> Inl NilDereference
              | Some p \<Rightarrow> Inr (sequential_loop b p videoCreateTasks w1)))"

text \<open>
  One unit of concurrency of \<open>processTaskConcurrent\<close>. \<open>videoCreateTask\<close> is the copy
  of the slot made when the unit was launched, \<open>index\<close> its slot. The deferred
  \<open>(*page).Close()\<close> dereferences the page pointer when the \<open>defer\<close> statement is
  reached, before the error is looked at. On success the pipeline runs on
  \<open>videoCreateTasks[i]\<close>, where \<open>i\<close> is the loop variable of the launching iteration
  (one variable per iteration, so \<open>i\<close> is \<open>index\<close>). A panic in a unit ends the program.
\<close>

definition worker ::
  "'w browser \<Rightarrow> VideoCreateTask \<Rightarrow> nat \<Rightarrow> VideoCreateTask list \<Rightarrow> 'w
     \<Rightarrow> panic + (VideoCreateTask list \<times> 'w)" where
  "worker b videoCreateTask0 index videoCreateTasks w =
     (let ((page, channelName, pageError), w1) = GeneratePage b False w;
          videoCreateTask = videoCreateTask0\<lparr>Page := page, ChannelName := channelName\<rparr>
      in case page of
           None \<Rightarrow> Inl NilDereference
         | Some p \<Rightarrow>
             (let (videoCreateTask, w2) =
                    (case pageError of
                       None \<Rightarrow> createVideo b p (videoCreateTasks ! index) w1
                     | Some e \<Rightarrow> (videoCreateTask\<lparr>Success := False, Error := e\<rparr>, w1))
              in Inr (videoCreateTasks[index := videoCreateTask], w2)))"

text \<open>
  The units run one after the other in the order \<open>sched\<close> in which they reach the
  browser, a list of slot indices; \<open>ts0\<close> is the slice as it was at launch.
\<close>

fun run_workers ::
  "'w browser \<Rightarrow> VideoCreateTask list \<Rightarrow> nat list \<Rightarrow> VideoCreateTask list \<Rightarrow> 'w
     \<Rightarrow> panic + (VideoCreateTask list \<times> 'w)" where
  "run_workers b ts0 [] ts w = Inr (ts, w)"
| "run_workers b ts0 (i # sched) ts w =
     (case worker b (ts0 ! i) i ts w of
        Inl p \<Rightarrow> Inl p
      | Inr (ts', w') \<Rightarrow> run_workers b ts0 sched ts' w')"

definition processTaskConcurrent ::
  "'w browser \<Rightarrow> nat list \<Rightarrow> VideoCreateTask list \<Rightarrow> 'w
     \<Rightarrow> panic + (VideoCreateTask list \<times> 'w)" where
  "processTaskConcurrent b sched videoCreateTasks w =
     run_workers b videoCreateTasks sched videoCreateTasks w"

text \<open>
  A browser in which every navigation fails with the error text \<open>e\<close> (pages are
  created, a reload changes nothing), and one in which the page loads and the login
  check finds the session gone.
\<close>

definition navigation_fails :: "'w browser \<Rightarrow> go_error \<Rightarrow> 'w browser" where
  "navigation_fails b e =
     b\<lparr>NewPage := (\<lambda>w. (Inr 0, w)), Goto := (\<lambda>page w. (Some e, w)),
       Reload := (\<lambda>page w. w)\<rparr>"

definition login_lost :: "'w browser \<Rightarrow> 'w browser" where
  "login_lost b =
     b\<lparr>NewPage := (\<lambda>w. (Inr 0, w)), Goto := (\<lambda>page w. (None, w)),
       waitForPageReady := (\<lambda>page w. (None, w)), isLoggedIn := (\<lambda>page w. False)\<rparr>"

text \<open>Two jobs as the validator hands them over, for rows 2 and 3 of the sheet.\<close>

definition job_row2 :: VideoCreateTask where
  "job_row2 = zero_task\<lparr>Action := ''publish'', VideoPath := ''a.mp4'', RowIndex := 2\<rparr>"

definition job_row3 :: VideoCreateTask where
  "job_row3 = zero_task\<lparr>Action := ''publish'', VideoPath := ''b.mp4'', RowIndex := 3\<rparr>"


text \<open>
  The invariant of a finished job: success with no error text, or failure with one.
\<close>

definition outcome_determinate :: "VideoCreateTask \<Rightarrow> bool" where
  "outcome_determinate t = (if Success t then Error t = [] else Error t \<noteq> [])"

section \<open>Completion waits\<close>

text \<open>
  The selectors the waits look for, one constructor for each selector string of the
  source (a string that occurs in two lists is one constructor).
\<close>

datatype selector =
    SelDeleteTag              \<comment> \<open>.finder-tag-wrap .tag-inner:has-text(delete)\<close>
  | SelUploadItemDelete       \<comment> \<open>.ant-upload-list-item .anticon-delete\<close>
  | SelButtonDelete           \<comment> \<open>button:has-text(delete)\<close>
  | SelTitleDelete            \<comment> \<open>[title*=delete]\<close>
  | SelClassDeleteBtn         \<comment> \<open>[class*='delete'][class*='btn']\<close>
  | SelUploadItemError        \<comment> \<open>.ant-upload-list-item-error\<close>
  | SelAlertError             \<comment> \<open>.ant-alert-error\<close>
  | SelUploadError            \<comment> \<open>.upload-error\<close>
  | SelTextUploadFailed       \<comment> \<open>text=(upload failed)\<close>
  | SelTextFormatUnsupported  \<comment> \<open>text=(format not supported)\<close>
  | SelTextFileTooLarge       \<comment> \<open>text=(file too large)\<close>
  | SelTextNetworkError       \<comment> \<open>text=(network error)\<close>
  | SelClassError             \<comment> \<open>[class*='error']\<close>
  | SelTextSaved              \<comment> \<open>text=(saved)\<close>
  | SelTextSaveSucceeded      \<comment> \<open>text=(save succeeded)\<close>
  | SelTextSaveDone           \<comment> \<open>text=(save completed)\<close>
  | SelTextDraftSaved         \<comment> \<open>text=(draft saved)\<close>
  | SelMessageSuccess         \<comment> \<open>.ant-message-success\<close>
  | SelWeuiMessageSuccess     \<comment> \<open>.weui-desktop-message--success\<close>
  | SelClassSuccess           \<comment> \<open>[class*='success']\<close>
  | SelTextPublished          \<comment> \<open>text=(published), first wording\<close>
  | SelTextPublishSucceeded   \<comment> \<open>text=(publish succeeded), first wording\<close>
  | SelTextReleaseSucceeded   \<comment> \<open>text=(publish succeeded), second wording\<close>
  | SelTextVideoReleased      \<comment> \<open>text=(video published)\<close>
  | SelPreviewDialog          \<comment> \<open>.weui-desktop-dialog, [role='dialog'], .preview-dialog\<close>
  | SelTextSaveFailed         \<comment> \<open>text=(save failed)\<close>
  | SelTextPublishFailed      \<comment> \<open>text=(publish failed)\<close>
  | SelTextActionFailed       \<comment> \<open>text=(operation failed)\<close>
  | SelMessageError           \<comment> \<open>.ant-message-error\<close>
  | SelWeuiMessageError       \<comment> \<open>.weui-desktop-message--error\<close>

text \<open>
  What one look at the page gives: for a selector the number of matches, whether the
  first match is visible and enabled (the source drops the errors of these calls), and
  whether reading the text of \<open>body\<close> returns an error.
\<close>

record page_view =
  Count :: "selector \<Rightarrow> nat"
  IsVisible :: "selector \<Rightarrow> bool"
  IsEnabled :: "selector \<Rightarrow> bool"
  body_TextContent_fails :: bool



definition errorSelectors :: "selector list" where
  "errorSelectors =
     [SelUploadItemError, SelAlertError, SelUploadError, SelTextUploadFailed,
      SelTextFormatUnsupported, SelTextFileTooLarge, SelTextNetworkError, SelClassError]"

text \<open>
  \<open>hasUploadError\<close>: for a visible selector the source reads the text of \<open>body\<close>, binds
  the \<^emph>\<open>error\<close> of that call to \<open>errorText\<close> and returns true when it is not nil.
\<close>

definition hasUploadError :: "page_view \<Rightarrow> bool" where
  "hasUploadError page =
     list_ex (\<lambda>sel. IsVisible page sel \<and> body_TextContent_fails page) errorSelectors"




























section \<open>The date picker\<close>



text \<open>The errors of month and day selection, one constructor for each message.\<close>

datatype picker_error =
    MonthTextReadFailed go_error          \<comment> \<open>reading the month label failed\<close>
  | CannotDetermineMonth                  \<comment> \<open>the current month cannot be determined\<close>
  | GetCurrentMonthFailed picker_error    \<comment> \<open>getting the current month failed: ...\<close>
  | RightArrowNotFound                    \<comment> \<open>the right-arrow button was not found\<close>
  | ClickRightArrowFailed go_error        \<comment> \<open>clicking the right arrow failed: ...\<close>
  | VerifyFinalMonthFailed picker_error   \<comment> \<open>verifying the final month failed: ...\<close>
  | MonthSwitchFailed int int             \<comment> \<open>month switch failed, current: ..., target: ...\<close>
  | DayCountFailed go_error               \<comment> \<open>getting the date elements failed: ...\<close>
  | ClickDayFailed int go_error           \<comment> \<open>clicking date ... failed: ...\<close>
  | DaySelectionVerifyFailed go_error     \<comment> \<open>verification of the date selection failed: ...\<close>
  | DayNotFound int                       \<comment> \<open>date ... not found\<close>
  | DayNotSelectable int                  \<comment> \<open>date ... cannot be selected\<close>









text \<open>
  A day cell of the grid: its text (or the error of reading it), its \<open>class\<close>
  attribute, and what a click on it returns.
\<close>

record day_cell =
  cell_TextContent :: "go_error + string"
  cell_class :: string
  cell_Click :: "go_error option"

text \<open>
  The grid: the error of counting the cells, if any, the cells in document order, and
  what the two verification functions return after a click on the cell with a given
  index.
\<close>

record day_grid =
  cells_Count_error :: "go_error option"
  cells :: "day_cell list"
  verifyDaySelection :: "nat \<Rightarrow> go_error option"
  verifyDaySelectionByNumber :: "nat \<Rightarrow> go_error option"

text \<open>The day a cell shows: its trimmed text as a number.\<close>

definition day_of :: "day_cell \<Rightarrow> int option" where
  "day_of c =
     (case cell_TextContent c of Inl e \<Rightarrow> None | Inr text \<Rightarrow> Atoi (TrimSpace text))"

text \<open>
  The scan of \<open>selectSpecificDay\<close> over the cells with their indices. The result is the
  index of the cell that was clicked, if any, and the error.
\<close>

fun scan_all_dates ::
  "day_grid \<Rightarrow> int \<Rightarrow> (nat \<times> day_cell) list \<Rightarrow> nat option \<times> picker_error option" where
  "scan_all_dates g day [] = (None, Some (DayNotFound day))"
| "scan_all_dates g day ((i, c) # rest) =
     (case cell_TextContent c of
        Inl e \<Rightarrow> scan_all_dates g day rest
      | Inr text \<Rightarrow>
          (case Atoi (TrimSpace text) of
             None \<Rightarrow> scan_all_dates g day rest
           | Some currentDay \<Rightarrow>
               if currentDay = day then
                 (if Contains (cell_class c) ''disabled'' then scan_all_dates g day rest
                  else
                    (case cell_Click c of
                       Some e \<Rightarrow> (Some i, Some (ClickDayFailed day e))
                     | None \<Rightarrow>
                         (case verifyDaySelection g i of
                            Some e \<Rightarrow> (Some i, Some (DaySelectionVerifyFailed e))
                          | None \<Rightarrow> (Some i, None))))
               else scan_all_dates g day rest))"

definition selectSpecificDay :: "day_grid \<Rightarrow> int \<Rightarrow> nat option \<times> picker_error option" where
  "selectSpecificDay g day =
     (case cells_Count_error g of
        Some e \<Rightarrow> (None, Some (DayCountFailed e))
      | None \<Rightarrow> scan_all_dates g day (enumerate 0 (cells g)))"

text \<open>
  The class list of an element: its \<open>class\<close> attribute split at HTML white space. The
  selector \<open>a:not(.weui-desktop-picker__disabled)\<close> keeps the cells whose class list
  does not hold that class.
\<close>

definition html_space :: "char \<Rightarrow> bool" where
  "html_space c = (c = CHR 0x09 \<or> c = CHR 0x0A \<or> c = CHR 0x0C \<or> c = CHR 0x0D \<or> c = CHR 0x20)"

fun class_tokens_from :: "string \<Rightarrow> string \<Rightarrow> string list" where
  "class_tokens_from cur [] = (if cur = [] then [] else [cur])"
| "class_tokens_from cur (c # cs) =
     (if html_space c then
        (if cur = [] then class_tokens_from [] cs else cur # class_tokens_from [] cs)
      else class_tokens_from (cur @ [c]) cs)"

definition class_tokens :: "string \<Rightarrow> string list" where
  "class_tokens s = class_tokens_from [] s"

definition disabled_class :: string where
  "disabled_class = ''weui-desktop-picker__disabled''"

definition marked_disabled :: "day_cell \<Rightarrow> bool" where
  "marked_disabled c = (disabled_class \<in> set (class_tokens (cell_class c)))"

definition availableDates :: "day_grid \<Rightarrow> (nat \<times> day_cell) list" where
  "availableDates g = filter (\<lambda>(i, c). \<not> marked_disabled c) (enumerate 0 (cells g))"

text \<open>The scan of \<open>selectSpecificDayOptimized\<close> over the available cells.\<close>

fun scan_available_dates ::
  "day_grid \<Rightarrow> int \<Rightarrow> (nat \<times> day_cell) list \<Rightarrow> nat option \<times> picker_error option" where
  "scan_available_dates g day [] = (None, Some (DayNotSelectable day))"
| "scan_available_dates g day ((i, c) # rest) =
     (case cell_TextContent c of
        Inl e \<Rightarrow> scan_available_dates g day rest
      | Inr text \<Rightarrow>
          (case Atoi (TrimSpace text) of
             None \<Rightarrow> scan_available_dates g day rest
           | Some currentDay \<Rightarrow>
               if currentDay = day then
                 (case cell_Click c of
                    Some e \<Rightarrow> (Some i, Some (ClickDayFailed day e))
                  | None \<Rightarrow>
                      (case verifyDaySelectionByNumber g i of
                         Some e \<Rightarrow> (Some i, Some (DaySelectionVerifyFailed e))
                       | None \<Rightarrow> (Some i, None)))
               else scan_available_dates g day rest))"

definition selectSpecificDayOptimized ::
  "day_grid \<Rightarrow> int \<Rightarrow> nat option \<times> picker_error option" where
  "selectSpecificDayOptimized g day =
     (case cells_Count_error g of
        Some e \<Rightarrow> (None, Some (DayCountFailed e))
      | None \<Rightarrow> scan_available_dates g day (availableDates g))"

text \<open>
  The cell is one the scan may click for \<open>day\<close>: it shows that day and is not marked
  disabled.
\<close>

definition selectable_for :: "int \<Rightarrow> day_cell \<Rightarrow> bool" where
  "selectable_for day c = (day_of c = Some day \<and> \<not> marked_disabled c)"



text \<open>
  A grid for concrete runs: the last day of the month before (disabled), days 1 and 2,
  and day 1 of the month after (disabled).
\<close>

definition sample_grid :: day_grid where
  "sample_grid =
     \<lparr>cells_Count_error = None,
      cells =
        [\<lparr>cell_TextContent = Inr ''30'', cell_class = ''weui-desktop-picker__disabled'',
          cell_Click = None\<rparr>,
         \<lparr>cell_TextContent = Inr '' 1 '', cell_class = '''', cell_Click = None\<rparr>,
         \<lparr>cell_TextContent = Inr ''2'', cell_class = ''weui-desktop-picker__current'',
          cell_Click = None\<rparr>,
         \<lparr>cell_TextContent = Inr ''1'',
          cell_class = ''weui-desktop-picker__faded weui-desktop-picker__disabled'',
          cell_Click = None\<rparr>],
      verifyDaySelection = (\<lambda>i. None),
      verifyDaySelectionByNumber = (\<lambda>i. None)\<rparr>"

section \<open>Properties of the row parser\<close>

text \<open>
  C10. The claim: \<open>parseTaskFromRow\<close> is total over rows of every length, each cell
  access being guarded by a length check, so that a row of six or fewer cells is parsed
  or rejected with an error. The code: the test \<open>row[5] == scheduled && row[6] == ""\<close>
  is not guarded. A row that holds only a description makes it read \<open>row[5]\<close> of a
  slice of length 1, and the function panics instead of returning an error.
\<close>

theorem parseTaskFromRow_short_row_panics:
  "parseTaskFromRow env [''a clip''] = Inl (IndexOutOfRange 5 1)"
  by (simp add: parseTaskFromRow_def)

text \<open>
  The second unguarded access: a row of exactly six cells whose sixth cell is the
  literal for "scheduled" panics at \<open>row[6]\<close>.
\<close>

lemma parseTaskFromRow_six_cells_scheduled_panics:
  "parseTaskFromRow env [d, l, c, k, a, str_scheduled] = Inl (IndexOutOfRange 6 6)"
  by (simp add: parseTaskFromRow_def)

text \<open>A row of seven cells or more is parsed or rejected with an error.\<close>

lemma parseTaskFromRow_long_row_total:
  "6 < length row \<Longrightarrow> \<exists>r. parseTaskFromRow env row = Inr r"
  by (simp add: parseTaskFromRow_def Let_def)

text \<open>A row of six cells whose sixth cell is not the literal is rejected with an error.\<close>

lemma parseTaskFromRow_six_cells_rejected:
  "f \<noteq> str_scheduled \<Longrightarrow>
   \<exists>task. parseTaskFromRow env [d, l, c, k, a, f] = Inr (task, Some MissingAction)"
  by (simp add: parseTaskFromRow_def parse_columns_G_J_def parse_columns_H_J_def)

section \<open>Properties of the dispatcher\<close>

text \<open>What \<open>GeneratePage\<close> returns in the two failing browsers.\<close>

lemma GeneratePage_navigation_fails:
  "GeneratePage (navigation_fails b e) False w = ((None, [], Some (err_navigation @ e)), w)"
  by (simp add: GeneratePage_def navigation_fails_def numeral_3_eq_3)

lemma GeneratePage_login_lost:
  "GeneratePage (login_lost b) False w =
     ((Some 0, [], Some (err_login_invalid @ ''<nil>'')), w)"
  by (simp add: GeneratePage_def login_lost_def numeral_3_eq_3)

text \<open>Without an error the page pointer is not nil.\<close>

lemma GeneratePage_ok_has_page:
  "GeneratePage b isLogin w = ((pg, ch, None), w') \<Longrightarrow> pg \<noteq> None"
  by (auto simp: GeneratePage_def split: prod.splits sum.splits option.splits if_splits)

text \<open>The size of the worker pool as the code computes it.\<close>

lemma maxConcurrency_tiers:
  "maxConcurrency ts =
     (if 50 < length ts \<and> length ts < 100 then 5 else if 100 < length ts then 10 else 3)"
  by (simp add: maxConcurrency_def)

text \<open>
  C1. The claim: 3 workers for at most 50 jobs, 5 workers for 51 to 100 jobs inclusive,
  10 workers for more than 100 jobs. The code: the middle tier is tested with
  \<open>len > 50 && len < 100\<close> and the upper tier with \<open>len > 100\<close>, so a list of exactly
  100 jobs falls in neither and keeps the initial 3 workers.
\<close>

theorem maxConcurrency_100_jobs: "maxConcurrency (replicate 100 t) = 3"
  by (simp add: maxConcurrency_def)

text \<open>
  C9. The claim: on a non-empty job list the error-recording branch of the sequential
  dispatcher reads and writes only indices within the list, a single-job list
  included. The code: the branch writes to \<open>videoCreateTasks[1]\<close>; on a single-job list
  this is index 1 of a slice of length 1, a panic.
\<close>

theorem processTaskSequential_single_job_panics:
  "processTaskSequential (navigation_fails b e) [t] w = Inl (IndexOutOfRange 1 1)"
  by (simp add: processTaskSequential_def GeneratePage_navigation_fails)

text \<open>
  C2. The claim: in sequential mode a page-acquisition failure is recorded against the
  affected job. The code: the page is acquired once, before the first job, and the
  error is written to the slot with index 1, the second job of the list, whatever the
  list is; the first job is handed back as it came.
\<close>

theorem processTaskSequential_records_error_on_second_job:
  "processTaskSequential (navigation_fails b e) [t0, t1] w =
     Inr ([t0, t1\<lparr>Success := False, Error := err_navigation @ e\<rparr>], w)"
  by (simp add: processTaskSequential_def GeneratePage_navigation_fails)

text \<open>
  C3. The claim: after dispatch every job has either success and no error text or
  failure and an error text, also the jobs whose pipeline never ran because page
  acquisition failed. The code: in sequential mode with a failed page acquisition only
  the second slot is given the error; here the job of row 2 comes back with
  \<open>Success = False\<close> and an empty \<open>Error\<close>.
\<close>

theorem processTaskSequential_leaves_job_indeterminate:
  "\<exists>rs w'. processTaskSequential (login_lost b) [job_row2, job_row3] w = Inr (rs, w')
     \<and> length rs = 2 \<and> \<not> outcome_determinate (rs ! 0)"
  by (simp add: processTaskSequential_def GeneratePage_login_lost outcome_determinate_def
        job_row2_def zero_task_def)

text \<open>
  C4. The claim: for every list of N jobs, in both modes, dispatch returns a list of N
  results in the order of the jobs. The code: no list is returned when page
  acquisition fails in sequential mode on a single job (the index panic above), nor
  when it fails in concurrent mode with a nil page, where the deferred \<open>(*page).Close()\<close>
  dereferences nil.
\<close>

theorem dispatch_returns_no_result_list:
  "(\<forall>r. processTaskSequential (navigation_fails b e) [t] w \<noteq> Inr r)
   \<and> (\<forall>r. processTaskConcurrent (navigation_fails b e) [0] [t] w \<noteq> Inr r)"
  by (simp add: processTaskSequential_def processTaskConcurrent_def worker_def
        GeneratePage_navigation_fails)

subsection \<open>Further properties of the dispatcher\<close>

text \<open>The error branch of the sequential dispatcher, for every job list.\<close>

lemma processTaskSequential_page_error:
  "GeneratePage b False w = ((pg, ch, Some e), w1) \<Longrightarrow>
   processTaskSequential b ts w =
     (if 1 < length ts then Inr (ts[1 := (ts ! 1)\<lparr>Success := False, Error := e\<rparr>], w1)
      else Inl (IndexOutOfRange 1 (length ts)))"
  by (simp add: processTaskSequential_def)

text \<open>
  Whenever a dispatcher returns, in either mode, the result has the length of the job
  list and the same row index in every slot. In concurrent mode this holds for every
  order \<open>sched\<close> in which the units run.
\<close>

lemma createVideo_RowIndex: "RowIndex (fst (createVideo b p t w)) = RowIndex t"
  by (simp add: createVideo_def Let_def split: prod.splits option.splits)

lemma sequential_loop_RowIndex:
  "map RowIndex (fst (sequential_loop b p ts w)) = map RowIndex ts"
proof (induction ts arbitrary: w)
  case Nil
  show ?case by simp
next
  case (Cons t ts)
  obtain t' w1 where c: "createVideo b p t w = (t', w1)" by (cases "createVideo b p t w")
  then have r: "RowIndex t' = RowIndex t" using createVideo_RowIndex [of b p t w] by simp
  obtain ts' w2 where l: "sequential_loop b p ts (Reload b p w1) = (ts', w2)"
    by (cases "sequential_loop b p ts (Reload b p w1)")
  then have "map RowIndex ts' = map RowIndex ts" using Cons.IH [of "Reload b p w1"] by simp
  with r c l show ?case by simp
qed

lemma processTaskSequential_order:
  assumes "processTaskSequential b ts w = Inr (rs, w')"
  shows "map RowIndex rs = map RowIndex ts"
proof -
  obtain page ch pageError w1 where g: "GeneratePage b False w = ((page, ch, pageError), w1)"
    by (metis prod_cases3 surj_pair)
  show ?thesis
  proof (cases pageError)
    case (Some e)
    with assms g have "1 < length ts" and "rs = ts[1 := (ts ! 1)\<lparr>Success := False, Error := e\<rparr>]"
      by (auto simp: processTaskSequential_def split: if_splits)
    then have "map RowIndex rs = (map RowIndex ts)[1 := map RowIndex ts ! 1]"
      by (simp add: map_update)
    then show ?thesis by (simp only: list_update_id)
  next
    case None
    with assms g obtain p where "page = Some p" and "sequential_loop b p ts w1 = (rs, w')"
      by (auto simp: processTaskSequential_def split: option.splits)
    then show ?thesis using sequential_loop_RowIndex [of b p ts w1] by simp
  qed
qed

lemma worker_RowIndex:
  assumes "worker b (ts0 ! i) i ts w = Inr (ts', w')"
    and "i < length ts" and "map RowIndex ts = map RowIndex ts0"
  shows "map RowIndex ts' = map RowIndex ts0"
proof -
  obtain page ch pageError w1 where g: "GeneratePage b False w = ((page, ch, pageError), w1)"
    by (metis prod_cases3 surj_pair)
  from assms(2,3) have i0: "i < length ts0" by (metis length_map)
  from assms(2,3) i0 have r: "RowIndex (ts ! i) = RowIndex (ts0 ! i)" by (metis nth_map)
  have "\<exists>t'. ts' = ts[i := t'] \<and> RowIndex t' = RowIndex (ts0 ! i)"
  proof (cases page)
    case None
    with assms(1) g show ?thesis by (simp add: worker_def)
  next
    case (Some p)
    show ?thesis
    proof (cases pageError)
      case None
      obtain t1 w2 where c: "createVideo b p (ts ! i) w1 = (t1, w2)"
        by (cases "createVideo b p (ts ! i) w1")
      then have "RowIndex t1 = RowIndex (ts0 ! i)"
        using createVideo_RowIndex [of b p "ts ! i" w1] r by simp
      moreover have "ts' = ts[i := t1]"
        using assms(1) g Some None c by (simp add: worker_def)
      ultimately show ?thesis by blast
    next
      case (Some e)
      with assms(1) g \<open>page = Some p\<close> show ?thesis by (auto simp: worker_def)
    qed
  qed
  then obtain t' where t': "ts' = ts[i := t']" "RowIndex t' = RowIndex (ts0 ! i)" by blast
  have "map RowIndex ts' = (map RowIndex ts0)[i := map RowIndex ts0 ! i]"
    using t' assms(3) i0 by (simp add: map_update)
  then show ?thesis by simp
qed

lemma run_workers_RowIndex:
  "run_workers b ts0 sched ts w = Inr (rs, w') \<Longrightarrow> \<forall>i\<in>set sched. i < length ts0 \<Longrightarrow>
   map RowIndex ts = map RowIndex ts0 \<Longrightarrow> map RowIndex rs = map RowIndex ts0"
proof (induction sched arbitrary: ts w)
  case Nil
  then show ?case by simp
next
  case (Cons i sched)
  from Cons.prems(1) obtain ts1 w1 where
      s: "worker b (ts0 ! i) i ts w = Inr (ts1, w1)" "run_workers b ts0 sched ts1 w1 = Inr (rs, w')"
    by (auto split: sum.splits)
  have "i < length ts" using Cons.prems(2,3) by (metis length_map list.set_intros(1))
  then have "map RowIndex ts1 = map RowIndex ts0"
    by (rule worker_RowIndex [OF s(1) _ Cons.prems(3)])
  with s(2) Cons.prems(2) show ?case using Cons.IH by simp
qed

lemma processTaskConcurrent_order:
  assumes "processTaskConcurrent b sched ts w = Inr (rs, w')"
    and "set sched \<subseteq> {..<length ts}"
  shows "map RowIndex rs = map RowIndex ts"
proof -
  from assms(2) have "\<forall>i\<in>set sched. i < length ts" by auto
  with assms(1) show ?thesis
    unfolding processTaskConcurrent_def by (rule run_workers_RowIndex) simp
qed

text \<open>
  A unit of concurrency whose page acquisition fails with a page that is not nil
  records the error in its own slot.
\<close>

lemma worker_records_page_error:
  "worker (login_lost b) t i ts w =
     Inr (ts[i := t\<lparr>Page := Some 0, ChannelName := [], Success := False,
                    Error := err_login_invalid @ ''<nil>''\<rparr>], w)"
  by (simp add: worker_def GeneratePage_login_lost)

text \<open>
  A job whose pipeline ran is determinate, provided it came with an empty error text
  and the pipeline steps return error texts that are not empty.
\<close>

lemma createVideo_determinate:
  assumes "Error t = []"
    and "\<And>p s w e. fst (uploadVideo b p s w) = Some e \<Longrightarrow> e \<noteq> []"
    and "\<And>p opts w e. fst (completeVideoUploadForm b p opts w) = Some e \<Longrightarrow> e \<noteq> []"
  shows "outcome_determinate (fst (createVideo b p t w))"
proof -
  obtain e1 w1 where u: "uploadVideo b p (VideoPath t) w = (e1, w1)"
    by (cases "uploadVideo b p (VideoPath t) w")
  show ?thesis
  proof (cases e1)
    case (Some e)
    with u assms(2) [of p "VideoPath t" w e] have "e \<noteq> []" by simp
    with u Some show ?thesis by (simp add: createVideo_def outcome_determinate_def)
  next
    case None
    let ?opts = "\<lparr>optDescription = Description t, optLocation = Location t,
                  optCollection = Collection t, optLink = Link t, optActivity = Activity t,
                  optSchedule = Schedule t, optScheduleTime = ScheduleTime t,
                  optShortTitle = ShortTitle t, optAction = Action t\<rparr>"
    obtain e2 w2 where c: "completeVideoUploadForm b p ?opts w1 = (e2, w2)"
      by (cases "completeVideoUploadForm b p ?opts w1")
    show ?thesis
    proof (cases e2)
      case None
      with u c \<open>e1 = None\<close> assms(1) show ?thesis
        by (simp add: createVideo_def outcome_determinate_def)
    next
      case (Some e)
      with c assms(3) [of p ?opts w1 e] have "e \<noteq> []" by simp
      with u c Some \<open>e1 = None\<close> show ?thesis
        by (simp add: createVideo_def outcome_determinate_def)
    qed
  qed
qed

section \<open>Properties of the completion waits\<close>

subsection \<open>Unrolling the loops\<close>










subsection \<open>The concrete pages and worlds\<close>











text \<open>
  The upload-error check fires only when the read of the page text fails: an error
  affordance that is visible on a page whose text can be read is not reported.
\<close>

lemma hasUploadError_needs_failed_read:
  "hasUploadError page \<Longrightarrow> body_TextContent_fails page"
  by (auto simp: hasUploadError_def list_ex_iff)

subsection \<open>The upload wait\<close>




subsection \<open>The check before a timeout\<close>




section \<open>Properties of the date picker\<close>

subsection \<open>Day selection\<close>

text \<open>A cell marked disabled has \<open>disabled\<close> in its class attribute.\<close>

lemma Contains_iff_sublist: "Contains s sub \<longleftrightarrow> sublist sub s"
  by (induction s) (simp_all add: sublist_Cons_right)

lemma class_tokens_from_sublist:
  "t \<in> set (class_tokens_from cur s) \<Longrightarrow> sublist t (cur @ s)"
proof (induction s arbitrary: cur)
  case Nil
  then show ?case by (simp split: if_splits)
next
  case (Cons c cs)
  show ?case
  proof (cases "html_space c")
    case False
    with Cons.prems have "t \<in> set (class_tokens_from (cur @ [c]) cs)" by simp
    then have "sublist t ((cur @ [c]) @ cs)" by (rule Cons.IH)
    then show ?thesis by simp
  next
    case True
    with Cons.prems have "t = cur \<or> t \<in> set (class_tokens_from [] cs)"
      by (simp split: if_splits)
    then show ?thesis
    proof
      assume "t = cur"
      then show ?thesis by (simp add: sublist_append_rightI)
    next
      assume "t \<in> set (class_tokens_from [] cs)"
      then have "sublist t ([] @ cs)" by (rule Cons.IH)
      then have "sublist t cs" by simp
      then show ?thesis by (metis sublist_appendI append_Cons append_assoc sublist_def)
    qed
  qed
qed

lemma disabled_in_disabled_class: "sublist ''disabled'' disabled_class"
  unfolding disabled_class_def by code_simp

lemma marked_disabled_Contains:
  "marked_disabled c \<Longrightarrow> Contains (cell_class c) ''disabled''"
proof -
  assume "marked_disabled c"
  then have "sublist disabled_class ([] @ cell_class c)"
    unfolding marked_disabled_def class_tokens_def by (rule class_tokens_from_sublist)
  then have "sublist ''disabled'' (cell_class c)"
    using disabled_in_disabled_class sublist_order.order_trans by fastforce
  then show ?thesis by (simp add: Contains_iff_sublist)
qed

lemma scan_all_dates_clicked:
  "fst (scan_all_dates g day ics) = Some i \<Longrightarrow>
   \<exists>c. (i, c) \<in> set ics \<and> day_of c = Some day \<and> \<not> Contains (cell_class c) ''disabled''"
proof (induction ics)
  case Nil
  then show ?case by simp
next
  case (Cons p rest)
  obtain j c where p: "p = (j, c)" by (cases p)
  show ?case
  proof (cases "day_of c = Some day \<and> \<not> Contains (cell_class c) ''disabled''")
    case True
    with Cons.prems p have "i = j"
      by (auto simp: day_of_def split: sum.splits option.splits)
    with True p show ?thesis by auto
  next
    case False
    with Cons.prems p have "fst (scan_all_dates g day rest) = Some i"
      by (auto simp: day_of_def split: sum.splits option.splits if_splits)
    then show ?thesis using Cons.IH by auto
  qed
qed

lemma scan_all_dates_none:
  "(\<And>i c. (i, c) \<in> set ics \<Longrightarrow> day_of c = Some day \<Longrightarrow> Contains (cell_class c) ''disabled'') \<Longrightarrow>
   scan_all_dates g day ics = (None, Some (DayNotFound day))"
proof (induction ics)
  case Nil
  show ?case by simp
next
  case (Cons p rest)
  obtain j c where p: "p = (j, c)" by (cases p)
  have rest: "scan_all_dates g day rest = (None, Some (DayNotFound day))"
    using Cons by auto
  have "day_of c = Some day \<Longrightarrow> Contains (cell_class c) ''disabled''"
    using Cons.prems p by auto
  then show ?case using p rest
    by (auto simp: day_of_def split: sum.splits option.splits)
qed

lemma scan_available_dates_clicked:
  "fst (scan_available_dates g day ics) = Some i \<Longrightarrow>
   \<exists>c. (i, c) \<in> set ics \<and> day_of c = Some day"
proof (induction ics)
  case Nil
  then show ?case by simp
next
  case (Cons p rest)
  obtain j c where p: "p = (j, c)" by (cases p)
  show ?case
  proof (cases "day_of c = Some day")
    case True
    with Cons.prems p have "i = j"
      by (auto simp: day_of_def split: sum.splits option.splits)
    with True p show ?thesis by auto
  next
    case False
    with Cons.prems p have "fst (scan_available_dates g day rest) = Some i"
      by (auto simp: day_of_def split: sum.splits option.splits if_splits)
    then show ?thesis using Cons.IH by auto
  qed
qed

lemma scan_available_dates_none:
  "(\<And>i c. (i, c) \<in> set ics \<Longrightarrow> day_of c \<noteq> Some day) \<Longrightarrow>
   scan_available_dates g day ics = (None, Some (DayNotSelectable day))"
proof (induction ics)
  case Nil
  show ?case by simp
next
  case (Cons p rest)
  obtain j c where p: "p = (j, c)" by (cases p)
  have rest: "scan_available_dates g day rest = (None, Some (DayNotSelectable day))"
    using Cons by auto
  have "day_of c \<noteq> Some day"
    using Cons.prems p by auto
  then show ?case using p rest
    by (auto simp: day_of_def split: sum.splits option.splits)
qed

lemma scan_all_dates_some:
  "(i, c) \<in> set ics \<Longrightarrow> day_of c = Some day \<Longrightarrow> \<not> Contains (cell_class c) ''disabled'' \<Longrightarrow>
   fst (scan_all_dates g day ics) \<noteq> None"
proof (induction ics)
  case Nil
  then show ?case by simp
next
  case (Cons p rest)
  obtain j d where p: "p = (j, d)" by (cases p)
  show ?case
  proof (cases "day_of d = Some day \<and> \<not> Contains (cell_class d) ''disabled''")
    case True
    with p show ?thesis by (auto simp: day_of_def split: sum.splits option.splits)
  next
    case False
    with Cons.prems p have "(i, c) \<in> set rest" by auto
    then have "fst (scan_all_dates g day rest) \<noteq> None"
      using Cons.IH Cons.prems by simp
    with False p show ?thesis by (auto simp: day_of_def split: sum.splits option.splits)
  qed
qed

lemma scan_available_dates_some:
  "(i, c) \<in> set ics \<Longrightarrow> day_of c = Some day \<Longrightarrow>
   fst (scan_available_dates g day ics) \<noteq> None"
proof (induction ics)
  case Nil
  then show ?case by simp
next
  case (Cons p rest)
  obtain j d where p: "p = (j, d)" by (cases p)
  show ?case
  proof (cases "day_of d = Some day")
    case True
    with p show ?thesis by (auto simp: day_of_def split: sum.splits option.splits)
  next
    case False
    with Cons.prems p have "(i, c) \<in> set rest" by auto
    then have "fst (scan_available_dates g day rest) \<noteq> None"
      using Cons.IH Cons.prems by simp
    with False p show ?thesis by (auto simp: day_of_def split: sum.splits option.splits)
  qed
qed

text \<open>
  C7. For every target day and every grid whose cells can be counted, both day
  selections click only a cell that shows the target day and is not marked disabled
  (the index returned is the one of the cell clicked). When no cell shows the target
  day without being marked disabled, \<open>selectSpecificDay\<close> fails with "date not found"
  and \<open>selectSpecificDayOptimized\<close> with "date cannot be selected", both naming the
  day, and nothing is clicked. The whole grid is scanned: when some cell shows the
  target day and has no \<open>disabled\<close> in its class attribute, a cell is clicked.
\<close>

theorem day_selection_only_target_day:
  assumes "cells_Count_error g = None"
  shows "(\<forall>i. fst (selectSpecificDay g day) = Some i \<longrightarrow>
            i < length (cells g) \<and> selectable_for day (cells g ! i))
       \<and> (\<forall>i. fst (selectSpecificDayOptimized g day) = Some i \<longrightarrow>
            i < length (cells g) \<and> selectable_for day (cells g ! i))
       \<and> (\<not> list_ex (selectable_for day) (cells g) \<longrightarrow>
            selectSpecificDay g day = (None, Some (DayNotFound day))
            \<and> selectSpecificDayOptimized g day = (None, Some (DayNotSelectable day)))
       \<and> (list_ex (\<lambda>c. day_of c = Some day \<and> \<not> Contains (cell_class c) ''disabled'') (cells g) \<longrightarrow>
            fst (selectSpecificDay g day) \<noteq> None
            \<and> fst (selectSpecificDayOptimized g day) \<noteq> None)"
proof (intro conjI allI impI)
  fix i assume "fst (selectSpecificDay g day) = Some i"
  then have "fst (scan_all_dates g day (enumerate 0 (cells g))) = Some i"
    using assms by (simp add: selectSpecificDay_def)
  then obtain c where c: "(i, c) \<in> set (enumerate 0 (cells g))" "day_of c = Some day"
      "\<not> Contains (cell_class c) ''disabled''"
    using scan_all_dates_clicked by blast
  from c(1) have i: "i < length (cells g)" "cells g ! i = c"
    by (simp_all add: in_set_enumerate_eq)
  from c(3) have "\<not> marked_disabled c" using marked_disabled_Contains by blast
  with c(2) i show "i < length (cells g)" "selectable_for day (cells g ! i)"
    by (simp_all add: selectable_for_def)
next
  fix i assume "fst (selectSpecificDayOptimized g day) = Some i"
  then have "fst (scan_available_dates g day (availableDates g)) = Some i"
    using assms by (simp add: selectSpecificDayOptimized_def)
  then obtain c where c: "(i, c) \<in> set (availableDates g)" "day_of c = Some day"
    using scan_available_dates_clicked by blast
  from c(1) have i: "i < length (cells g)" "cells g ! i = c" and m: "\<not> marked_disabled c"
    by (auto simp: availableDates_def in_set_enumerate_eq)
  with c(2) show "i < length (cells g)" "selectable_for day (cells g ! i)"
    by (simp_all add: selectable_for_def)
next
  assume no: "\<not> list_ex (selectable_for day) (cells g)"
  have none: "marked_disabled c"
    if "(i, c) \<in> set (enumerate 0 (cells g))" "day_of c = Some day" for i c
  proof -
    from that(1) have "c \<in> set (cells g)" by (auto simp: in_set_enumerate_eq)
    with no that(2) show ?thesis by (auto simp: list_ex_iff selectable_for_def)
  qed
  show "selectSpecificDay g day = (None, Some (DayNotFound day))"
    using assms none
    by (simp add: selectSpecificDay_def scan_all_dates_none marked_disabled_Contains)
  show "selectSpecificDayOptimized g day = (None, Some (DayNotSelectable day))"
    using assms none
    by (simp add: selectSpecificDayOptimized_def)
       (rule scan_available_dates_none, auto simp: availableDates_def)
next
  assume "list_ex (\<lambda>c. day_of c = Some day \<and> \<not> Contains (cell_class c) ''disabled'') (cells g)"
  then obtain c where c: "c \<in> set (cells g)" "day_of c = Some day"
      "\<not> Contains (cell_class c) ''disabled''"
    by (auto simp: list_ex_iff)
  then obtain i where i: "i < length (cells g)" "cells g ! i = c"
    by (auto simp: in_set_conv_nth)
  then have e: "(i, c) \<in> set (enumerate 0 (cells g))" by (simp add: in_set_enumerate_eq)
  from c(3) have "\<not> marked_disabled c" using marked_disabled_Contains by blast
  with e have a: "(i, c) \<in> set (availableDates g)" by (simp add: availableDates_def)
  show "fst (selectSpecificDay g day) \<noteq> None"
    using assms e c by (simp add: selectSpecificDay_def scan_all_dates_some)
  show "fst (selectSpecificDayOptimized g day) \<noteq> None"
    using assms a c by (simp add: selectSpecificDayOptimized_def scan_available_dates_some)
qed

lemma sample_grid_count: "cells_Count_error sample_grid = None"
  by (simp add: sample_grid_def)

lemma sample_grid_day_30: "\<not> list_ex (selectable_for 30) (cells sample_grid)"
  by code_simp

lemma sample_grid_day_1: "fst (selectSpecificDay sample_grid 1) = Some 1"
  by code_simp

lemma sample_grid_day_2: "fst (selectSpecificDayOptimized sample_grid 2) = Some 2"
  by code_simp

text \<open>
  The theorem at work on the sample grid: day 30 is shown by a disabled cell only,
  days 1 and 2 are clicked in the cells of the current month.
\<close>

theorem day_selection_only_target_day_witness:
  "selectSpecificDay sample_grid 30 = (None, Some (DayNotFound 30))
   \<and> selectSpecificDayOptimized sample_grid 30 = (None, Some (DayNotSelectable 30))
   \<and> selectable_for 1 (cells sample_grid ! 1)
   \<and> selectable_for 2 (cells sample_grid ! 2)"
  using day_selection_only_target_day [OF sample_grid_count, of 30]
    day_selection_only_target_day [OF sample_grid_count, of 1]
    day_selection_only_target_day [OF sample_grid_count, of 2]
    sample_grid_day_30 sample_grid_day_1 sample_grid_day_2
  by simp

subsection \<open>Month navigation\<close>










end
